theory Spec2Isabelle
  imports Complex_Main
begin

section \<open>Numbers\<close>

text \<open>
  The program is TypeScript; its \<^verbatim>\<open>number\<close>s are modelled by exact rationals
  (durations, delays and timeouts in milliseconds, rates as fractions) and its counters
  (attempt numbers, measurement counts) by \<open>int\<close> and \<open>nat\<close>. Every constant the code
  uses (0.8, 0.9, 0.95, 1.5, 2.5) is kept as the fraction it denotes.
  \<^verbatim>\<open>Math.round\<close> rounds half-way cases towards plus infinity.
\<close>

definition Math_round :: "rat \<Rightarrow> rat" where
  "Math_round x = of_int \<lfloor>x + 1 / 2\<rfloor>"

definition Math_floor :: "rat \<Rightarrow> rat" where
  "Math_floor x = of_int \<lfloor>x\<rfloor>"

section \<open>The adaptive timeout manager\<close>

text \<open>
  \<^verbatim>\<open>interface TimeoutMetrics\<close> and \<^verbatim>\<open>interface AdaptiveTimeoutConfig\<close>. The class
  \<^verbatim>\<open>AdaptiveTimeoutManager\<close> is a singleton with two private fields: \<^verbatim>\<open>metrics\<close>, the
  only field any method assigns, and \<^verbatim>\<open>config\<close>, initialised once and never written.
  A state of the manager is therefore a value of \<open>TimeoutMetrics\<close>, and \<open>config\<close> is a
  constant.
\<close>

record TimeoutMetrics =
  averageResponseTime :: rat
  successRate :: rat
  lastMeasurements :: "rat list"
  measurementCount :: nat

record AdaptiveTimeoutConfig =
  baseTimeout :: rat
  minTimeout :: rat
  maxTimeout :: rat
  measurementWindow :: nat
  successThreshold :: rat
  failureMultiplier :: rat
  successMultiplier :: rat

datatype OperationType = navigation | element | popup | network

definition config :: AdaptiveTimeoutConfig where
  "config = \<lparr>baseTimeout = 15000, minTimeout = 5000, maxTimeout = 30000,
     measurementWindow = 10, successThreshold = 8 / 10, failureMultiplier = 3 / 2,
     successMultiplier = 9 / 10\<rparr>"

text \<open>The field initialiser of \<^verbatim>\<open>metrics\<close>, which \<^verbatim>\<open>resetMetrics\<close> assigns again.\<close>

definition initialMetrics :: TimeoutMetrics where
  "initialMetrics = \<lparr>averageResponseTime = 0, successRate = 1, lastMeasurements = [],
     measurementCount = 0\<rparr>"

definition resetMetrics :: "TimeoutMetrics \<Rightarrow> TimeoutMetrics" where
  "resetMetrics m = initialMetrics"

text \<open>
  \<^verbatim>\<open>recordMeasurement(responseTime, success)\<close>. \<^verbatim>\<open>push\<close> appends, \<^verbatim>\<open>shift\<close> removes the
  first element. The method has no parameter for the operation category. Both divisors
  are at least 1 here: the list has just received an element and the window is 10, and
  the count has just been incremented.
\<close>

definition recordMeasurement :: "rat \<Rightarrow> bool \<Rightarrow> TimeoutMetrics \<Rightarrow> TimeoutMetrics" where
  "recordMeasurement responseTime success m =
     (let m1 =
        (if success then
           (let pushed = lastMeasurements m @ [responseTime];
                kept = (if length pushed > measurementWindow config then tl pushed else pushed)
            in m\<lparr>lastMeasurements := kept,
                 averageResponseTime := sum_list kept / of_nat (length kept)\<rparr>)
         else m);
          m2 = m1\<lparr>measurementCount := measurementCount m1 + 1\<rparr>;
          recentWindow = min (measurementWindow config) (measurementCount m2);
          successCount = length (lastMeasurements m2)
      in m2\<lparr>successRate := of_nat successCount / of_nat recentWindow\<rparr>)"

text \<open>The \<^verbatim>\<open>switch\<close> at the head of \<^verbatim>\<open>getAdaptiveTimeout\<close>; its \<^verbatim>\<open>default\<close> branch
  is excluded by the parameter's type.\<close>

fun categoryBaseTimeout :: "OperationType \<Rightarrow> rat" where
  "categoryBaseTimeout navigation = 20000"
| "categoryBaseTimeout element = 15000"
| "categoryBaseTimeout popup = 10000"
| "categoryBaseTimeout network = 8000"

definition getAdaptiveTimeout :: "TimeoutMetrics \<Rightarrow> OperationType \<Rightarrow> rat" where
  "getAdaptiveTimeout m operationType =
     (let base = categoryBaseTimeout operationType in
      if measurementCount m < 3 then base
      else
        (let adaptive1 =
               (if successRate m < successThreshold config then base * failureMultiplier config
                else if successRate m > 95 / 100 then base * successMultiplier config
                else base);
             adaptive2 =
               (if averageResponseTime m > 0
                then max adaptive1 (averageResponseTime m * (5 / 2))
                else adaptive1);
             adaptive3 = max (minTimeout config) (min (maxTimeout config) adaptive2)
         in Math_round adaptive3))"

text \<open>A run of \<^verbatim>\<open>recordMeasurement\<close> calls, given as (responseTime, success) pairs in call
  order.\<close>

definition recordAll :: "(rat \<times> bool) list \<Rightarrow> TimeoutMetrics \<Rightarrow> TimeoutMetrics" where
  "recordAll calls m = foldl (\<lambda>acc (t, good). recordMeasurement t good acc) m calls"

section \<open>Thrown values, log lines and effects\<close>

text \<open>
  An \<^verbatim>\<open>Error\<close> instance is represented by its message. Messages built from template
  strings are kept structured (which template, and the values interpolated into it), so
  that the Korean text of the templates and the printing of numbers stay out of the
  model. \<open>CannotReadReplaceOfUndefined\<close> is the message of the \<^verbatim>\<open>TypeError\<close> that
  \<^verbatim>\<open>undefined.replace(...)\<close> raises.

  A thrown value that is not an \<^verbatim>\<open>Error\<close> instance is represented by what
  \<^verbatim>\<open>String(value)\<close> gives, in two kinds: \<open>NonError\<close> for a truthy value without a
  string \<^verbatim>\<open>message\<close> property (a non-empty string, a non-zero number), \<open>FalsyValue\<close>
  for \<^verbatim>\<open>undefined\<close>, \<^verbatim>\<open>null\<close>, \<^verbatim>\<open>false\<close>, 0 and the empty string. Objects that
  are not \<^verbatim>\<open>Error\<close> instances but carry a \<^verbatim>\<open>message\<close> of their own are not modelled.
\<close>

datatype message =
    Text string
  | OperationTimeoutAfter rat
  | AllSelectorsFailed "string list"
  | TelegramApiError nat string string
  | CannotReadReplaceOfUndefined

datatype thrown = ErrorObject message | NonError string | FalsyValue string

text \<open>\<^verbatim>\<open>error instanceof Error ? error : new Error(String(error))\<close>\<close>

fun toError :: "thrown \<Rightarrow> thrown" where
  "toError (ErrorObject msg) = ErrorObject msg"
| "toError (NonError str) = ErrorObject (Text str)"
| "toError (FalsyValue str) = ErrorObject (Text str)"

fun message_of :: "thrown \<Rightarrow> message" where
  "message_of (ErrorObject msg) = msg"
| "message_of (NonError str) = Text str"
| "message_of (FalsyValue str) = Text str"

text \<open>
  \<^verbatim>\<open>Logger.error(message, error)\<close> passes \<^verbatim>\<open>error\<close> to \<^verbatim>\<open>createLogEntry\<close>, which, when
  \<^verbatim>\<open>error\<close> is truthy, calls \<^verbatim>\<open>maskSensitiveData(error.message)\<close>; masking is enabled
  in \<^verbatim>\<open>defaultConfig\<close> (\<^verbatim>\<open>enableSensitiveDataMasking\<close> and \<^verbatim>\<open>maskSensitiveInfo\<close>) and
  nothing switches it off. For a truthy value without a \<^verbatim>\<open>message\<close> that is
  \<^verbatim>\<open>undefined.replace(...)\<close>, which throws before anything is logged. The function gives
  what the call throws, \<open>None\<close> when it returns.
\<close>

fun Logger_error_throws :: "thrown \<Rightarrow> thrown option" where
  "Logger_error_throws (ErrorObject msg) = None"
| "Logger_error_throws (NonError str) = Some (ErrorObject CannotReadReplaceOfUndefined)"
| "Logger_error_throws (FalsyValue str) = None"

datatype WaitState = visible | attached | detached | hidden

text \<open>
  The log lines written by the modelled functions, each named after the call that writes
  it and carrying the values its template interpolates.
\<close>

datatype log_line =
    Attempting string int int
  | SucceededOnAttempt string int
  | FinalFailure string int thrown
  | RetryingAfterDelay string int int rat message
  | RetryingAfterRestart string int int message
  | BrowserRestartFailed thrown
  | SelectorSucceeded string
  | SelectorFailed string
  | TelegramPermanentError message
  | TelegramTransientError message
  | TelegramSent

text \<open>
  What a function does besides returning: the \<^verbatim>\<open>Logger\<close> calls, the awaited callbacks,
  the awaited \<^verbatim>\<open>setTimeout\<close> delays and the awaited driver calls, in the order in which
  they happen.
\<close>

datatype event =
    Logger_info log_line
  | Logger_success log_line
  | Logger_warning log_line
  | Logger_error log_line
  | Await_fn
  | Await_browserRestartFn
  | Await_setTimeout rat
  | Await_waitForSelector string WaitState rat
  | Await_fetch

text \<open>
  An asynchronous function over a world \<open>'s\<close>: awaited in a world, it settles with a
  rejection (\<open>Inl\<close>) or a value (\<open>Inr\<close>), leaves a new world and has emitted events.
\<close>

type_synonym ('s, 'a) async = "'s \<Rightarrow> (thrown + 'a) \<times> 's \<times> event list"

section \<open>Retry configuration\<close>

text \<open>
  \<^verbatim>\<open>config.retry\<close> of the configuration manager, with the values of \<^verbatim>\<open>defaultConfig\<close>.
  The environment variable \<^verbatim>\<open>MAX_RETRIES\<close> may replace both retry counts by a positive
  integer, so the functions below take the retry configuration as an argument.
  \<^verbatim>\<open>RETRY_CONFIG\<close> of \<^verbatim>\<open>constants.ts\<close> holds the same five fields.
\<close>

record RetryConfig =
  maxOperationRetries :: int
  maxProcessRetries :: int
  configBaseDelay :: rat
  configMaxDelay :: rat
  configBackoffMultiplier :: rat

definition defaultRetryConfig :: RetryConfig where
  "defaultRetryConfig = \<lparr>maxOperationRetries = 3, maxProcessRetries = 3,
     configBaseDelay = 2000, configMaxDelay = 10000, configBackoffMultiplier = 2\<rparr>"

text \<open>\<^verbatim>\<open>interface RetryOptions\<close>: every field may be absent.\<close>

record RetryOptions =
  maxRetries :: "int option"
  baseDelay :: "rat option"
  maxDelay :: "rat option"
  backoffMultiplier :: "rat option"
  operation :: "string option"

definition noOptions :: RetryOptions where
  "noOptions = \<lparr>maxRetries = None, baseDelay = None, maxDelay = None,
     backoffMultiplier = None, operation = None\<rparr>"

text \<open>A destructuring default applies when the field is absent.\<close>

fun orDefault :: "'a option \<Rightarrow> 'a \<Rightarrow> 'a" where
  "orDefault None d = d"
| "orDefault (Some v) d = v"

text \<open>The default operation labels, as the UTF-8 bytes of the Korean literals of
  \<^verbatim>\<open>withRetry\<close> and \<^verbatim>\<open>withBrowserRestart\<close>.\<close>

definition defaultOperationLabel :: string where
  "defaultOperationLabel = [CHR 0xEC, CHR 0x9E, CHR 0x91, CHR 0xEC, CHR 0x97, CHR 0x85]"

definition defaultProcessLabel :: string where
  "defaultProcessLabel =
     [CHR 0xEC, CHR 0xA0, CHR 0x84, CHR 0xEC, CHR 0xB2, CHR 0xB4, CHR 0x20,
      CHR 0xED, CHR 0x94, CHR 0x84, CHR 0xEB, CHR 0xA1, CHR 0x9C,
      CHR 0xEC, CHR 0x84, CHR 0xB8, CHR 0xEC, CHR 0x8A, CHR 0xA4]"

definition noAttemptsMade :: thrown where
  "noAttemptsMade = ErrorObject (Text ''No attempts made'')"

section \<open>withRetry\<close>

text \<open>
  The \<^verbatim>\<open>for\<close> loop of \<^verbatim>\<open>withRetry\<close>, entered at \<open>attempt\<close> with the current
  \<open>lastError\<close>. When the loop condition fails the statement after the loop throws
  \<open>lastError\<close>.
\<close>

function withRetry_loop ::
  "('s, 'a) async \<Rightarrow> string \<Rightarrow> int \<Rightarrow> rat \<Rightarrow> rat \<Rightarrow> rat \<Rightarrow> int \<Rightarrow> thrown \<Rightarrow> ('s, 'a) async"
where
  "withRetry_loop fn label maxR baseD maxD mult attempt lastError s =
     (if attempt \<le> maxR then
        (case fn s of
           (Inr result, s1, evs) \<Rightarrow>
             (Inr result, s1,
              [Logger_info (Attempting label attempt maxR), Await_fn] @ evs @
              (if attempt > 1 then [Logger_success (SucceededOnAttempt label attempt)] else []))
         | (Inl error, s1, evs) \<Rightarrow>
             (let lastError1 = toError error in
              if attempt = maxR then
                (Inl lastError1, s1,
                 [Logger_info (Attempting label attempt maxR), Await_fn] @ evs @
                 [Logger_error (FinalFailure label maxR lastError1)])
              else
                (let delay = min (baseD * mult ^ nat (attempt - 1)) maxD in
                 case withRetry_loop fn label maxR baseD maxD mult (attempt + 1) lastError1 s1 of
                   (r, s2, rest) \<Rightarrow>
                     (r, s2,
                      [Logger_info (Attempting label attempt maxR), Await_fn] @ evs @
                      [Logger_warning
                         (RetryingAfterDelay label attempt maxR delay (message_of lastError1)),
                       Await_setTimeout delay] @ rest))))
      else (Inl lastError, s, []))"
  by pat_completeness auto
termination
  by (relation "measure (\<lambda>(fn, label, maxR, baseD, maxD, mult, attempt, lastError, s).
        nat (maxR + 1 - attempt))") auto

declare withRetry_loop.simps [simp del]

definition withRetry :: "('s, 'a) async \<Rightarrow> RetryOptions \<Rightarrow> RetryConfig \<Rightarrow> ('s, 'a) async" where
  "withRetry fn options retryConfig s =
     withRetry_loop fn
       (orDefault (operation options) defaultOperationLabel)
       (orDefault (maxRetries options) (maxOperationRetries retryConfig))
       (orDefault (baseDelay options) (configBaseDelay retryConfig))
       (orDefault (maxDelay options) (configMaxDelay retryConfig))
       (orDefault (backoffMultiplier options) (configBackoffMultiplier retryConfig))
       1 noAttemptsMade s"

section \<open>withBrowserRestart\<close>

text \<open>
  The \<^verbatim>\<open>for\<close> loop of \<^verbatim>\<open>withBrowserRestart\<close>. The inner \<^verbatim>\<open>catch\<close> block calls
  \<^verbatim>\<open>Logger.error\<close> with the restart error; what that call throws leaves the outer
  \<^verbatim>\<open>catch\<close> block and is the rejection of the whole call.
\<close>

function withBrowserRestart_loop ::
  "('s, 'a) async \<Rightarrow> ('s, unit) async \<Rightarrow> string \<Rightarrow> int \<Rightarrow> rat \<Rightarrow> int \<Rightarrow> thrown \<Rightarrow> ('s, 'a) async"
where
  "withBrowserRestart_loop fn browserRestartFn label maxR baseD attempt lastError s =
     (if attempt \<le> maxR then
        (case fn s of
           (Inr result, s1, evs) \<Rightarrow>
             (Inr result, s1,
              [Logger_info (Attempting label attempt maxR), Await_fn] @ evs @
              (if attempt > 1 then [Logger_success (SucceededOnAttempt label attempt)] else []))
         | (Inl error, s1, evs) \<Rightarrow>
             (let lastError1 = toError error in
              if attempt = maxR then
                (Inl lastError1, s1,
                 [Logger_info (Attempting label attempt maxR), Await_fn] @ evs @
                 [Logger_error (FinalFailure label maxR lastError1)])
              else
                (case browserRestartFn s1 of
                   (restarted, s2, revs) \<Rightarrow>
                     (case (case restarted of
                              Inl restartError \<Rightarrow> Logger_error_throws restartError
                            | Inr _ \<Rightarrow> None) of
                        Some loggerError \<Rightarrow>
                          (Inl loggerError, s2,
                           [Logger_info (Attempting label attempt maxR), Await_fn] @ evs @
                           [Logger_warning
                              (RetryingAfterRestart label attempt maxR (message_of lastError1)),
                            Await_browserRestartFn] @ revs)
                      | None \<Rightarrow>
                          (case withBrowserRestart_loop fn browserRestartFn label maxR baseD
                                  (attempt + 1) lastError1 s2 of
                             (r, s3, rest) \<Rightarrow>
                               (r, s3,
                                [Logger_info (Attempting label attempt maxR), Await_fn] @ evs @
                                [Logger_warning
                                   (RetryingAfterRestart label attempt maxR
                                      (message_of lastError1)),
                                 Await_browserRestartFn] @ revs @
                                (case restarted of
                                   Inl restartError \<Rightarrow>
                                     [Logger_error (BrowserRestartFailed restartError)]
                                 | Inr _ \<Rightarrow> []) @
                                [Await_setTimeout baseD] @ rest))))))
      else (Inl lastError, s, []))"
  by pat_completeness auto
termination
  by (relation "measure (\<lambda>(fn, browserRestartFn, label, maxR, baseD, attempt, lastError, s).
        nat (maxR + 1 - attempt))") auto

declare withBrowserRestart_loop.simps [simp del]

text \<open>Only \<^verbatim>\<open>maxRetries\<close> and \<^verbatim>\<open>operation\<close> are read from the options; the delay is
  \<^verbatim>\<open>retryConfig.baseDelay\<close>.\<close>

definition withBrowserRestart ::
  "('s, 'a) async \<Rightarrow> ('s, unit) async \<Rightarrow> RetryOptions \<Rightarrow> RetryConfig \<Rightarrow> ('s, 'a) async"
where
  "withBrowserRestart fn browserRestartFn options retryConfig s =
     withBrowserRestart_loop fn browserRestartFn
       (orDefault (operation options) defaultProcessLabel)
       (orDefault (maxRetries options) (maxProcessRetries retryConfig))
       (configBaseDelay retryConfig)
       1 noAttemptsMade s"

section \<open>sendTelegramMessage\<close>

text \<open>
  The request handed to \<^verbatim>\<open>fetch\<close> and the parts of the response the function reads.
  \<open>body_text\<close> and \<open>body_json\<close> are what \<^verbatim>\<open>response.text()\<close> and
  \<^verbatim>\<open>response.json()\<close> settle with; \<^verbatim>\<open>response.ok\<close> is true for a status from 200
  to 299. \<^verbatim>\<open>fetch\<close> itself rejects on a network failure.
\<close>

record Request =
  url :: string
  http_method :: string
  content_type :: string
  chat_id :: string
  message_text :: string
  parse_mode :: string

record 'j Response =
  status :: nat
  statusText :: string
  body_text :: "thrown + string"
  body_json :: "thrown + 'j"

definition ok :: "'j Response \<Rightarrow> bool" where
  "ok response = (200 \<le> status response \<and> status response \<le> 299)"

type_synonym ('s, 'j) fetch = "'s \<Rightarrow> Request \<Rightarrow> (thrown + 'j Response) \<times> 's"

text \<open>The arrow function that \<^verbatim>\<open>sendTelegramMessage\<close> passes to \<^verbatim>\<open>withRetry\<close>.\<close>

definition sendOnce ::
  "('s, 'j) fetch \<Rightarrow> string \<Rightarrow> string \<Rightarrow> string \<Rightarrow> string \<Rightarrow> ('s, 'j) async"
where
  "sendOnce fetch token chatId message parseMode s =
     (case fetch s \<lparr>url = ''https://api.telegram.org/bot'' @ token @ ''/sendMessage'',
                     http_method = ''POST'', content_type = ''application/json'',
                     chat_id = chatId, message_text = message, parse_mode = parseMode\<rparr> of
        (Inl networkError, s1) \<Rightarrow> (Inl networkError, s1, [Await_fetch])
      | (Inr response, s1) \<Rightarrow>
          (if \<not> ok response then
             (let errorBody =
                    (case body_text response of Inl _ \<Rightarrow> ''Unknown error'' | Inr b \<Rightarrow> b);
                  error = ErrorObject
                    (TelegramApiError (status response) (statusText response) errorBody)
              in if status response \<ge> 400 \<and> status response < 500
                 then (Inl error, s1,
                       [Await_fetch, Logger_error (TelegramPermanentError (message_of error))])
                 else (Inl error, s1,
                       [Await_fetch, Logger_warning (TelegramTransientError (message_of error))]))
           else
             (case body_json response of
                Inl parseError \<Rightarrow> (Inl parseError, s1, [Await_fetch])
              | Inr result \<Rightarrow> (Inr result, s1, [Await_fetch, Logger_info TelegramSent]))))"

text \<open>The operation label \<^verbatim>\<open>"Telegram ..."\<close> of the call, as UTF-8 bytes.\<close>

definition telegramLabel :: string where
  "telegramLabel = ''Telegram '' @
     [CHR 0xEB, CHR 0xA9, CHR 0x94, CHR 0xEC, CHR 0x8B, CHR 0x9C, CHR 0xEC, CHR 0xA7, CHR 0x80,
      CHR 0x20, CHR 0xEC, CHR 0xA0, CHR 0x84, CHR 0xEC, CHR 0x86, CHR 0xA1]"

text \<open>\<^verbatim>\<open>parseMode\<close> has the default \<^verbatim>\<open>"HTML"\<close>; all four numeric options are passed
  from \<^verbatim>\<open>RETRY_CONFIG\<close>.\<close>

definition sendTelegramMessage ::
  "('s, 'j) fetch \<Rightarrow> RetryConfig \<Rightarrow> string \<Rightarrow> string \<Rightarrow> string \<Rightarrow> string option \<Rightarrow> ('s, 'j) async"
where
  "sendTelegramMessage fetch retryConfig token chatId message parseMode s =
     withRetry (sendOnce fetch token chatId message (orDefault parseMode ''HTML''))
       \<lparr>maxRetries = Some (maxOperationRetries retryConfig),
        baseDelay = Some (configBaseDelay retryConfig),
        maxDelay = Some (configMaxDelay retryConfig),
        backoffMultiplier = Some (configBackoffMultiplier retryConfig),
        operation = Some telegramLabel\<rparr>
       retryConfig s"

section \<open>withTimeoutMeasurement and waitForAnySelector\<close>

text \<open>
  The world of the browser functions: the page, driven through Playwright, and the
  metrics of the singleton timeout manager.
\<close>

record 'p Process =
  page :: 'p
  metrics :: TimeoutMetrics

text \<open>
  \<^verbatim>\<open>withTimeoutMeasurement\<close> races the operation (\<open>operationFn\<close>) against a timer of \<open>adaptiveTimeout\<close>
  milliseconds and, in its \<^verbatim>\<open>finally\<close> block, records the elapsed time. Which of the
  two promises settles first and what \<^verbatim>\<open>Date.now()\<close> returns are decided by real time;
  the model takes both as the argument \<open>race\<close>. When the timer settles first the
  operation is not cancelled, so its effects on the world are kept.
  \<^verbatim>\<open>a || b\<close> on an optional number is \<open>b\<close> when \<open>a\<close> is absent or zero.
\<close>

record Race =
  timerFirst :: bool
  responseTime :: rat

fun orElse :: "rat option \<Rightarrow> rat \<Rightarrow> rat" where
  "orElse None d = d"
| "orElse (Some v) d = (if v = 0 then d else v)"

definition withTimeoutMeasurement ::
  "('p Process, 'a) async \<Rightarrow> OperationType \<Rightarrow> rat option \<Rightarrow> Race \<Rightarrow> ('p Process, 'a) async"
where
  "withTimeoutMeasurement operationFn operationType timeoutMs race w =
     (let adaptiveTimeout = orElse timeoutMs (getAdaptiveTimeout (metrics w) operationType) in
      case operationFn w of
        (settled, w1, evs) \<Rightarrow>
          (let outcome =
                 (if timerFirst race
                  then Inl (ErrorObject (OperationTimeoutAfter adaptiveTimeout))
                  else settled);
               success = (case outcome of Inl _ \<Rightarrow> False | Inr _ \<Rightarrow> True)
           in (outcome,
               w1\<lparr>metrics := recordMeasurement (responseTime race) success (metrics w1)\<rparr>,
               evs)))"

text \<open>\<^verbatim>\<open>page.waitForSelector(selector, {state, timeout})\<close>, an operation of the driver.\<close>

type_synonym 'p waitForSelector = "'p \<Rightarrow> string \<Rightarrow> WaitState \<Rightarrow> rat \<Rightarrow> (thrown + unit) \<times> 'p"

text \<open>
  The \<^verbatim>\<open>for ... of\<close> loop of \<^verbatim>\<open>waitForAnySelector\<close> over the selectors still to try;
  \<open>None\<close> when the loop ends without returning. \<open>selectors\<close> is the whole list, whose
  length divides the budget on every iteration.
\<close>

fun trySelectors ::
  "'p waitForSelector \<Rightarrow> WaitState \<Rightarrow> rat \<Rightarrow> string list \<Rightarrow> string list \<Rightarrow> 'p
     \<Rightarrow> string option \<times> 'p \<times> event list"
where
  "trySelectors waitFor state adaptiveTimeout selectors [] p = (None, p, [])"
| "trySelectors waitFor state adaptiveTimeout selectors (selector # remaining) p =
     (let timeout = Math_floor (adaptiveTimeout / of_nat (length selectors)) in
      case waitFor p selector state timeout of
        (Inr _, p1) \<Rightarrow>
          (Some selector, p1,
           [Await_waitForSelector selector state timeout,
            Logger_info (SelectorSucceeded selector)])
      | (Inl _, p1) \<Rightarrow>
          (case trySelectors waitFor state adaptiveTimeout selectors remaining p1 of
             (found, p2, evs) \<Rightarrow>
               (found, p2,
                Await_waitForSelector selector state timeout #
                Logger_warning (SelectorFailed selector) # evs)))"

text \<open>The operation that \<^verbatim>\<open>waitForAnySelector\<close> hands to \<^verbatim>\<open>withTimeoutMeasurement\<close>: the
  loop, then the \<^verbatim>\<open>throw\<close> that joins all selectors into the message.\<close>

definition resolveSelectors ::
  "'p waitForSelector \<Rightarrow> WaitState \<Rightarrow> rat \<Rightarrow> string list \<Rightarrow> ('p Process, string) async"
where
  "resolveSelectors waitFor state adaptiveTimeout selectors w =
     (case trySelectors waitFor state adaptiveTimeout selectors selectors (page w) of
        (Some selector, p1, evs) \<Rightarrow> (Inr selector, w\<lparr>page := p1\<rparr>, evs)
      | (None, p1, evs) \<Rightarrow>
          (Inl (ErrorObject (AllSelectorsFailed selectors)), w\<lparr>page := p1\<rparr>, evs))"

definition waitForAnySelector ::
  "'p waitForSelector \<Rightarrow> string list \<Rightarrow> WaitState option \<Rightarrow> rat option \<Rightarrow> Race
     \<Rightarrow> ('p Process, string) async"
where
  "waitForAnySelector waitFor selectors stateOption timeoutOption race w =
     (let state = orDefault stateOption visible;
          adaptiveTimeout = orElse timeoutOption (getAdaptiveTimeout (metrics w) element)
      in withTimeoutMeasurement (resolveSelectors waitFor state adaptiveTimeout selectors)
           element (Some adaptiveTimeout) race w)"

section \<open>Properties of the adaptive timeout manager\<close>

lemma Math_round_mono: "x \<le> y \<Longrightarrow> Math_round x \<le> Math_round y"
  by (simp add: Math_round_def floor_mono)

lemma Math_round_of_int: "Math_round (of_int z) = of_int z"
  by (simp add: Math_round_def) linarith

lemma recordAll_snoc:
  "recordAll (calls @ [(t, good)]) m = recordMeasurement t good (recordAll calls m)"
  by (simp add: recordAll_def)

lemma lastMeasurements_recordMeasurement:
  "lastMeasurements (recordMeasurement t good m) =
     (if good then
        (if length (lastMeasurements m) + 1 > measurementWindow config
         then tl (lastMeasurements m @ [t]) else lastMeasurements m @ [t])
      else lastMeasurements m)"
  by (simp add: recordMeasurement_def Let_def)

lemma measurementCount_recordMeasurement:
  "measurementCount (recordMeasurement t good m) = measurementCount m + 1"
  by (simp add: recordMeasurement_def Let_def)

lemma successRate_recordMeasurement:
  "successRate (recordMeasurement t good m) =
     of_nat (length (lastMeasurements (recordMeasurement t good m))) /
     of_nat (min (measurementWindow config) (measurementCount (recordMeasurement t good m)))"
  by (simp add: recordMeasurement_def Let_def)

text \<open>Pushing onto the last \<open>W\<close> elements of a list and shifting on overflow gives the
  last \<open>W\<close> elements of the extended list.\<close>

lemma push_shift_window:
  assumes "1 \<le> W" and "xs = drop (length S - W) S"
  shows "(if length xs + 1 > W then tl (xs @ [t]) else xs @ [t]) =
         drop (length (S @ [t]) - W) (S @ [t])"
proof (cases "W \<le> length S")
  case True
  with assms have ne: "xs \<noteq> []" by simp
  from True assms have len: "length xs = W" by simp
  have "tl (xs @ [t]) = tl xs @ [t]"
    using ne by simp
  also have "tl xs = drop (Suc (length S - W)) S"
    by (simp add: assms(2) drop_Suc tl_drop)
  also have "Suc (length S - W) = length (S @ [t]) - W" using True by simp
  finally show ?thesis using True len assms(1) by simp
next
  case False
  then show ?thesis using assms by simp
qed

lemma lastMeasurements_recordAll:
  "lastMeasurements (recordAll calls initialMetrics) =
     drop (length (map fst (filter snd calls)) - measurementWindow config)
          (map fst (filter snd calls))"
proof (induction calls rule: rev_induct)
  case Nil
  then show ?case by (simp add: recordAll_def initialMetrics_def)
next
  case (snoc c calls)
  obtain t good where c: "c = (t, good)" by (cases c)
  have W: "1 \<le> measurementWindow config" by (simp add: config_def)
  show ?case
  proof (cases good)
    case True
    have "lastMeasurements (recordAll (calls @ [c]) initialMetrics) =
          lastMeasurements (recordMeasurement t True (recordAll calls initialMetrics))"
      by (simp add: c True recordAll_snoc)
    also have "\<dots> = (if length (lastMeasurements (recordAll calls initialMetrics)) + 1
                          > measurementWindow config
                     then tl (lastMeasurements (recordAll calls initialMetrics) @ [t])
                     else lastMeasurements (recordAll calls initialMetrics) @ [t])"
      by (simp only: lastMeasurements_recordMeasurement if_True)
    also have "\<dots> = drop (length (map fst (filter snd calls) @ [t]) - measurementWindow config)
                        (map fst (filter snd calls) @ [t])"
      by (rule push_shift_window[OF W snoc.IH])
    also have "map fst (filter snd calls) @ [t] = map fst (filter snd (calls @ [c]))"
      by (simp add: c True)
    finally show ?thesis .
  next
    case False
    then show ?thesis
      by (simp add: c recordAll_snoc lastMeasurements_recordMeasurement snoc.IH)
  qed
qed

lemma measurementCount_recordAll:
  "measurementCount (recordAll calls m) = measurementCount m + length calls"
  by (induction calls rule: rev_induct)
     (auto simp: recordAll_snoc measurementCount_recordMeasurement recordAll_def)

text \<open>
  Claim C5. In every state of the manager with \<open>measurementCount < 3\<close>, whatever the
  success rate, the average and the window hold, \<open>getAdaptiveTimeout\<close> returns the fixed
  base of the category: 20000 for navigation, 15000 for element, 10000 for popup and 8000
  for network.
\<close>

theorem getAdaptiveTimeout_insufficient_data:
  assumes "measurementCount m < 3"
  shows "getAdaptiveTimeout m c =
           (case c of navigation \<Rightarrow> 20000 | element \<Rightarrow> 15000 | popup \<Rightarrow> 10000 | network \<Rightarrow> 8000)"
  using assms by (cases c) (simp_all add: getAdaptiveTimeout_def)

theorem getAdaptiveTimeout_insufficient_data_witness:
  "measurementCount (recordAll [(29000, True), (1, False)] initialMetrics) < 3
   \<and> getAdaptiveTimeout (recordAll [(29000, True), (1, False)] initialMetrics) popup = 10000"
proof -
  have h: "measurementCount (recordAll [(29000, True), (1, False)] initialMetrics) < 3"
    by (simp add: measurementCount_recordAll initialMetrics_def)
  show ?thesis
    using h getAdaptiveTimeout_insufficient_data[OF h, of popup] by simp
qed

text \<open>
  Claim C6. After any run of \<open>recordMeasurement\<close> calls from the initial state the window
  holds at most \<open>measurementWindow\<close> (10) samples, and they are the last 10 response
  times of the successful calls, in call order (oldest evicted first); the count is the
  number of calls. In any state, one more call increments \<open>measurementCount\<close> by exactly 1
  and leaves \<open>successRate\<close> equal to the number of samples in the window divided by
  \<open>min W measurementCount\<close>.
\<close>

theorem recordMeasurement_window_invariant:
  "length (lastMeasurements (recordAll calls initialMetrics)) \<le> measurementWindow config
   \<and> measurementWindow config = 10
   \<and> lastMeasurements (recordAll calls initialMetrics) =
       drop (length (map fst (filter snd calls)) - measurementWindow config)
            (map fst (filter snd calls))
   \<and> measurementCount (recordAll calls initialMetrics) = length calls
   \<and> measurementCount (recordMeasurement t good m) = measurementCount m + 1
   \<and> successRate (recordMeasurement t good m) =
       of_nat (length (lastMeasurements (recordMeasurement t good m))) /
       of_nat (min (measurementWindow config) (measurementCount (recordMeasurement t good m)))"
proof -
  have "length (lastMeasurements (recordAll calls initialMetrics)) \<le> measurementWindow config"
    by (simp add: lastMeasurements_recordAll)
  moreover have "measurementWindow config = 10" by (simp add: config_def)
  moreover have "measurementCount (recordAll calls initialMetrics) = length calls"
    by (simp add: measurementCount_recordAll initialMetrics_def)
  ultimately show ?thesis
    using lastMeasurements_recordAll[of calls] measurementCount_recordMeasurement[of t good m]
      successRate_recordMeasurement[of t good m]
    by blast
qed

text \<open>
  Claim C7. In every state with \<open>measurementCount \<ge> 3\<close> and a success rate below the
  threshold 0.8, \<open>getAdaptiveTimeout\<close> returns more than the base timeout of the
  category: the base is multiplied by 1.5, and neither the latency floor, nor the clamp
  to [5000, 30000], nor the rounding brings the value down to the base again.
\<close>

theorem getAdaptiveTimeout_low_success_rate:
  assumes "measurementCount m \<ge> 3" and "successRate m < 8 / 10"
  shows "categoryBaseTimeout c < getAdaptiveTimeout m c"
proof -
  define y where "y = (if averageResponseTime m > 0
                then max (categoryBaseTimeout c * (3 / 2)) (averageResponseTime m * (5 / 2))
                else categoryBaseTimeout c * (3 / 2))"
  have r: "getAdaptiveTimeout m c = Math_round (max 5000 (min 30000 y))"
    using assms by (simp add: getAdaptiveTimeout_def y_def Let_def config_def)
  have "categoryBaseTimeout c * (3 / 2) \<le> y"
    by (cases "averageResponseTime m > 0")
       (simp_all only: y_def if_True if_False max.cobounded1 order_refl)
  then have "min 30000 (categoryBaseTimeout c * (3 / 2)) \<le> max 5000 (min 30000 y)"
    by simp
  from Math_round_mono[OF this]
  have "Math_round (min 30000 (categoryBaseTimeout c * (3 / 2))) \<le> getAdaptiveTimeout m c"
    by (simp add: r)
  moreover have "categoryBaseTimeout c < Math_round (min 30000 (categoryBaseTimeout c * (3 / 2)))"
    by (cases c) (simp_all add: Math_round_def)
  ultimately show ?thesis by simp
qed

theorem getAdaptiveTimeout_low_success_rate_witness:
  "measurementCount (recordAll [(100, False), (100, False), (100, False)] initialMetrics) \<ge> 3
   \<and> successRate (recordAll [(100, False), (100, False), (100, False)] initialMetrics) < 8 / 10
   \<and> categoryBaseTimeout navigation
       < getAdaptiveTimeout (recordAll [(100, False), (100, False), (100, False)] initialMetrics)
           navigation"
proof -
  have h1: "measurementCount (recordAll [(100, False), (100, False), (100, False)] initialMetrics) \<ge> 3"
    by (simp add: measurementCount_recordAll initialMetrics_def)
  have h2: "successRate (recordAll [(100, False), (100, False), (100, False)] initialMetrics) < 8 / 10"
    by (simp add: recordAll_def recordMeasurement_def initialMetrics_def Let_def config_def)
  show ?thesis
    using h1 h2 getAdaptiveTimeout_low_success_rate[OF h1 h2, of navigation] by simp
qed

text \<open>
  Claim C8. In every state of the manager and for every category the value returned by
  \<open>getAdaptiveTimeout\<close> lies between \<open>minTimeout\<close> (5000) and \<open>maxTimeout\<close> (30000),
  in the branch that returns the base unclamped as well as after the final rounding.
\<close>

theorem getAdaptiveTimeout_in_range:
  "minTimeout config \<le> getAdaptiveTimeout m c \<and> getAdaptiveTimeout m c \<le> maxTimeout config
   \<and> minTimeout config = 5000 \<and> maxTimeout config = 30000"
proof (cases "measurementCount m < 3")
  case True
  then show ?thesis by (cases c) (simp_all add: getAdaptiveTimeout_def config_def)
next
  case False
  define x where "x = max (minTimeout config) (min (maxTimeout config)
     (if averageResponseTime m > 0
      then max (if successRate m < successThreshold config
                then categoryBaseTimeout c * failureMultiplier config
                else if successRate m > 95 / 100
                then categoryBaseTimeout c * successMultiplier config
                else categoryBaseTimeout c) (averageResponseTime m * (5 / 2))
      else (if successRate m < successThreshold config
            then categoryBaseTimeout c * failureMultiplier config
            else if successRate m > 95 / 100
            then categoryBaseTimeout c * successMultiplier config
            else categoryBaseTimeout c)))"
  have r: "getAdaptiveTimeout m c = Math_round x"
    using False by (simp add: getAdaptiveTimeout_def x_def Let_def)
  have lo: "of_int 5000 \<le> x" and hi: "x \<le> of_int 30000"
    by (simp_all add: x_def config_def)
  from Math_round_mono[OF lo] Math_round_mono[OF hi]
  show ?thesis unfolding r Math_round_of_int by (simp add: config_def)
qed

section \<open>Properties of the retry loops\<close>

text \<open>One iteration of each loop, by the way it ends.\<close>

lemma withRetry_loop_exhausted:
  "\<not> attempt \<le> maxR \<Longrightarrow>
   withRetry_loop fn label maxR baseD maxD mult attempt lastError s = (Inl lastError, s, [])"
  by (subst withRetry_loop.simps) simp

lemma withRetry_loop_final:
  "attempt = maxR \<Longrightarrow> fn s = (Inl error, s1, evs) \<Longrightarrow>
   withRetry_loop fn label maxR baseD maxD mult attempt lastError s =
     (Inl (toError error), s1,
      [Logger_info (Attempting label attempt maxR), Await_fn] @ evs @
      [Logger_error (FinalFailure label maxR (toError error))])"
  by (subst withRetry_loop.simps) (simp add: Let_def)

lemma withRetry_loop_retry:
  "attempt < maxR \<Longrightarrow> fn s = (Inl error, s1, evs) \<Longrightarrow>
   withRetry_loop fn label maxR baseD maxD mult (attempt + 1) (toError error) s1 = (r, s2, rest) \<Longrightarrow>
   withRetry_loop fn label maxR baseD maxD mult attempt lastError s =
     (r, s2,
      [Logger_info (Attempting label attempt maxR), Await_fn] @ evs @
      [Logger_warning (RetryingAfterDelay label attempt maxR
         (min (baseD * mult ^ nat (attempt - 1)) maxD) (message_of (toError error))),
       Await_setTimeout (min (baseD * mult ^ nat (attempt - 1)) maxD)] @ rest)"
  by (subst withRetry_loop.simps) (simp add: Let_def)

lemma withBrowserRestart_loop_exhausted:
  "\<not> attempt \<le> maxR \<Longrightarrow>
   withBrowserRestart_loop fn browserRestartFn label maxR baseD attempt lastError s =
     (Inl lastError, s, [])"
  by (subst withBrowserRestart_loop.simps) simp

lemma withBrowserRestart_loop_resolved:
  "attempt \<le> maxR \<Longrightarrow> fn s = (Inr result, s1, evs) \<Longrightarrow>
   withBrowserRestart_loop fn browserRestartFn label maxR baseD attempt lastError s =
     (Inr result, s1,
      [Logger_info (Attempting label attempt maxR), Await_fn] @ evs @
      (if attempt > 1 then [Logger_success (SucceededOnAttempt label attempt)] else []))"
  by (subst withBrowserRestart_loop.simps) simp

lemma withBrowserRestart_loop_final:
  "attempt = maxR \<Longrightarrow> fn s = (Inl error, s1, evs) \<Longrightarrow>
   withBrowserRestart_loop fn browserRestartFn label maxR baseD attempt lastError s =
     (Inl (toError error), s1,
      [Logger_info (Attempting label attempt maxR), Await_fn] @ evs @
      [Logger_error (FinalFailure label maxR (toError error))])"
  by (subst withBrowserRestart_loop.simps) (simp add: Let_def)

lemma withBrowserRestart_loop_retry:
  "attempt < maxR \<Longrightarrow> fn s = (Inl error, s1, evs) \<Longrightarrow>
   browserRestartFn s1 = (restarted, s2, revs) \<Longrightarrow>
   (case restarted of Inl restartError \<Rightarrow> Logger_error_throws restartError | Inr _ \<Rightarrow> None) = None \<Longrightarrow>
   withBrowserRestart_loop fn browserRestartFn label maxR baseD (attempt + 1) (toError error) s2
     = (r, s3, rest) \<Longrightarrow>
   withBrowserRestart_loop fn browserRestartFn label maxR baseD attempt lastError s =
     (r, s3,
      [Logger_info (Attempting label attempt maxR), Await_fn] @ evs @
      [Logger_warning (RetryingAfterRestart label attempt maxR (message_of (toError error))),
       Await_browserRestartFn] @ revs @
      (case restarted of
         Inl restartError \<Rightarrow> [Logger_error (BrowserRestartFailed restartError)]
       | Inr _ \<Rightarrow> []) @
      [Await_setTimeout baseD] @ rest)"
  by (subst withBrowserRestart_loop.simps) (simp add: Let_def)

lemma withBrowserRestart_loop_logger_throws:
  "attempt < maxR \<Longrightarrow> fn s = (Inl error, s1, evs) \<Longrightarrow>
   browserRestartFn s1 = (Inl restartError, s2, revs) \<Longrightarrow>
   Logger_error_throws restartError = Some loggerError \<Longrightarrow>
   withBrowserRestart_loop fn browserRestartFn label maxR baseD attempt lastError s =
     (Inl loggerError, s2,
      [Logger_info (Attempting label attempt maxR), Await_fn] @ evs @
      [Logger_warning (RetryingAfterRestart label attempt maxR (message_of (toError error))),
       Await_browserRestartFn] @ revs)"
  by (subst withBrowserRestart_loop.simps) (simp add: Let_def)

text \<open>Every iteration that is entered begins by awaiting the workflow in the current world.\<close>

lemma withBrowserRestart_loop_begins:
  assumes "attempt \<le> maxR"
  shows "\<exists>rest. snd (snd (withBrowserRestart_loop fn browserRestartFn label maxR baseD attempt lastError s)) =
           [Logger_info (Attempting label attempt maxR), Await_fn] @ snd (snd (fn s)) @ rest"
proof -
  obtain out s1 evs where f: "fn s = (out, s1, evs)" by (cases "fn s")
  show ?thesis
  proof (cases out)
    case (Inr v)
    then show ?thesis
      using assms f by (simp add: withBrowserRestart_loop_resolved)
  next
    case (Inl e)
    show ?thesis
    proof (cases "attempt = maxR")
      case True
      then show ?thesis using f Inl by (simp add: withBrowserRestart_loop_final)
    next
      case False
      with assms have lt: "attempt < maxR" by simp
      obtain restarted s2 revs where b: "browserRestartFn s1 = (restarted, s2, revs)"
        by (cases "browserRestartFn s1")
      obtain r s3 rest where n: "withBrowserRestart_loop fn browserRestartFn label maxR baseD
          (attempt + 1) (toError e) s2 = (r, s3, rest)"
        by (cases "withBrowserRestart_loop fn browserRestartFn label maxR baseD
          (attempt + 1) (toError e) s2")
      show ?thesis
      proof (cases "(case restarted of Inl restartError \<Rightarrow> Logger_error_throws restartError
                      | Inr _ \<Rightarrow> None)")
        case None
        show ?thesis
          using withBrowserRestart_loop_retry[OF lt f[unfolded Inl] b None n, of lastError] f
          by simp
      next
        case (Some loggerError)
        then obtain restartError where re: "restarted = Inl restartError"
          and th: "Logger_error_throws restartError = Some loggerError"
          by (cases restarted) simp_all
        show ?thesis
          using withBrowserRestart_loop_logger_throws[where fn = fn
              and browserRestartFn = browserRestartFn and label = label and baseD = baseD
              and lastError = lastError, OF lt f[unfolded Inl] b[unfolded re] th] f
          by simp
      qed
    qed
  qed
qed

text \<open>
  Claim C3, as amended. With \<open>maxRetries = 3\<close>, \<open>baseDelay = 2000\<close>,
  \<open>backoffMultiplier = 2\<close> and \<open>maxDelay = 10000\<close>, let the action reject with \<open>e1\<close> when
  first awaited, with \<open>e2\<close> when awaited in the world it left, and with \<open>e3\<close> the third
  time (an action that rejects on every attempt does so). Then the action is awaited
  exactly these three times, a delay of 2000 ms follows the first rejection and one of
  4000 ms the second (lemma \<open>withRetry_loop_retry\<close> gives the formula), nothing follows
  the third but the log line, and the call rejects with \<open>toError e3\<close>: the last reason
  itself when it is an \<^verbatim>\<open>Error\<close> instance, a new \<^verbatim>\<open>Error\<close> carrying \<^verbatim>\<open>String(reason)\<close>
  otherwise.
\<close>

theorem withRetry_three_rejections:
  assumes "fn s0 = (Inl e1, s1, ev1)" and "fn s1 = (Inl e2, s2, ev2)" and "fn s2 = (Inl e3, s3, ev3)"
  shows "withRetry fn \<lparr>maxRetries = Some 3, baseDelay = Some 2000, maxDelay = Some 10000,
             backoffMultiplier = Some 2, operation = Some label\<rparr> retryConfig s0 =
           (Inl (toError e3), s3,
            [Logger_info (Attempting label 1 3), Await_fn] @ ev1 @
            [Logger_warning (RetryingAfterDelay label 1 3 2000 (message_of (toError e1))),
             Await_setTimeout 2000,
             Logger_info (Attempting label 2 3), Await_fn] @ ev2 @
            [Logger_warning (RetryingAfterDelay label 2 3 4000 (message_of (toError e2))),
             Await_setTimeout 4000,
             Logger_info (Attempting label 3 3), Await_fn] @ ev3 @
            [Logger_error (FinalFailure label 3 (toError e3))])"
proof -
  have third: "withRetry_loop fn label 3 2000 10000 2 3 (toError e2) s2 =
      (Inl (toError e3), s3,
       [Logger_info (Attempting label 3 3), Await_fn] @ ev3 @
       [Logger_error (FinalFailure label 3 (toError e3))])"
    using withRetry_loop_final[of 3 3 fn s2 e3 s3 ev3] assms(3) by simp
  have second: "withRetry_loop fn label 3 2000 10000 2 2 (toError e1) s1 =
      (Inl (toError e3), s3,
       [Logger_info (Attempting label 2 3), Await_fn] @ ev2 @
       [Logger_warning (RetryingAfterDelay label 2 3 4000 (message_of (toError e2))),
        Await_setTimeout 4000,
        Logger_info (Attempting label 3 3), Await_fn] @ ev3 @
       [Logger_error (FinalFailure label 3 (toError e3))])"
    using withRetry_loop_retry[of 2 3 fn s1 e2 s2 ev2 label 2000 10000 2, OF _ assms(2)] third
    by simp
  have first: "withRetry_loop fn label 3 2000 10000 2 1 noAttemptsMade s0 =
      (Inl (toError e3), s3,
            [Logger_info (Attempting label 1 3), Await_fn] @ ev1 @
            [Logger_warning (RetryingAfterDelay label 1 3 2000 (message_of (toError e1))),
             Await_setTimeout 2000,
             Logger_info (Attempting label 2 3), Await_fn] @ ev2 @
            [Logger_warning (RetryingAfterDelay label 2 3 4000 (message_of (toError e2))),
             Await_setTimeout 4000,
             Logger_info (Attempting label 3 3), Await_fn] @ ev3 @
            [Logger_error (FinalFailure label 3 (toError e3))])"
    using withRetry_loop_retry[of 1 3 fn s0 e1 s1 ev1 label 2000 10000 2, OF _ assms(1)] second
    by simp
  show ?thesis by (simp add: withRetry_def first)
qed

theorem withRetry_three_rejections_witness:
  "withRetry (\<lambda>n. (Inl (ErrorObject (Text ''boom'')), Suc n, []))
      \<lparr>maxRetries = Some 3, baseDelay = Some 2000, maxDelay = Some 10000,
             backoffMultiplier = Some 2, operation = Some ''job''\<rparr> defaultRetryConfig (0::nat) =
           (Inl (ErrorObject (Text ''boom'')) :: thrown + unit, 3,
            [Logger_info (Attempting ''job'' 1 3), Await_fn,
             Logger_warning (RetryingAfterDelay ''job'' 1 3 2000 (Text ''boom'')),
             Await_setTimeout 2000,
             Logger_info (Attempting ''job'' 2 3), Await_fn,
             Logger_warning (RetryingAfterDelay ''job'' 2 3 4000 (Text ''boom'')),
             Await_setTimeout 4000,
             Logger_info (Attempting ''job'' 3 3), Await_fn,
             Logger_error (FinalFailure ''job'' 3 (ErrorObject (Text ''boom'')))])"
  using withRetry_three_rejections[of "\<lambda>n. (Inl (ErrorObject (Text ''boom'')), Suc n, [])" 0 "ErrorObject (Text ''boom'')" 1 "[]"
      "ErrorObject (Text ''boom'')" 2 "[]" "ErrorObject (Text ''boom'')" 3 "[]" "''job''" defaultRetryConfig]
  by simp

text \<open>
  Claim C3 as stated fails when the action rejects with a value that is not an
  \<^verbatim>\<open>Error\<close> instance, here the string \<^verbatim>\<open>"boom"\<close>: the call rejects with a new \<^verbatim>\<open>Error\<close>
  whose message is \<^verbatim>\<open>"boom"\<close>, not with the string.
\<close>

theorem withRetry_rewraps_non_error:
  "fst (withRetry (\<lambda>s. (Inl (NonError ''boom''), s, [])) 
        \<lparr>maxRetries = Some 3, baseDelay = Some 2000, maxDelay = Some 10000,
             backoffMultiplier = Some 2, operation = None\<rparr> defaultRetryConfig ())
    = (Inl (ErrorObject (Text ''boom'')) :: thrown + unit)
  \<and> fst (withRetry (\<lambda>s. (Inl (NonError ''boom''), s, [])) 
        \<lparr>maxRetries = Some 3, baseDelay = Some 2000, maxDelay = Some 10000,
             backoffMultiplier = Some 2, operation = None\<rparr> defaultRetryConfig ()) \<noteq> (Inl (NonError ''boom'') :: thrown + unit)"
  by (simp add: withRetry_def withRetry_loop.simps Let_def)

text \<open>
  Claim C10. Called with \<open>maxRetries\<close> zero or negative, \<open>withRetry\<close> and
  \<open>withBrowserRestart\<close> never await the action (nor the restart callback): the world is
  unchanged, no event is emitted and the call rejects with the \<^verbatim>\<open>Error\<close> whose message is
  \<^verbatim>\<open>"No attempts made"\<close>.
\<close>

theorem no_attempts_when_maxRetries_not_positive:
  assumes "maxRetries options = Some n" and "n \<le> 0"
  shows "withRetry fn options retryConfig s = (Inl (ErrorObject (Text ''No attempts made'')), s, [])
       \<and> withBrowserRestart fn browserRestartFn options retryConfig s =
           (Inl (ErrorObject (Text ''No attempts made'')), s, [])"
  using assms
  by (simp add: withRetry_def withBrowserRestart_def noAttemptsMade_def 
      withRetry_loop_exhausted withBrowserRestart_loop_exhausted)

theorem no_attempts_when_maxRetries_not_positive_witness:
  "maxRetries (noOptions\<lparr>maxRetries := Some (- 2)\<rparr>) = Some (- 2) \<and> (- 2 :: int) \<le> 0
   \<and> withRetry (\<lambda>n. (Inr True, Suc n, [])) (noOptions\<lparr>maxRetries := Some (- 2)\<rparr>) defaultRetryConfig (0 :: nat)
       = (Inl (ErrorObject (Text ''No attempts made'')), 0, [])
   \<and> withBrowserRestart (\<lambda>n. (Inr True, Suc n, [])) (\<lambda>n. (Inr (), n + 10, []))
         (noOptions\<lparr>maxRetries := Some (- 2)\<rparr>) defaultRetryConfig (0 :: nat)
       = (Inl (ErrorObject (Text ''No attempts made'')), 0, [])"
proof -
  have h1: "maxRetries (noOptions\<lparr>maxRetries := Some (- 2)\<rparr>) = Some (- 2)" by simp
  have h2: "(- 2 :: int) \<le> 0" by simp
  show ?thesis
    using h1 h2 no_attempts_when_maxRetries_not_positive[OF h1 h2, of "\<lambda>n. (Inr True, Suc n, [])" defaultRetryConfig 0 "\<lambda>n. (Inr (), n + 10, [])"]
    by simp
qed

text \<open>
  Claim C2 at a 4xx response. Let \<^verbatim>\<open>fetch\<close> answer every request with status 400 and
  count the requests in the world. \<open>sendTelegramMessage\<close> logs the permanent-error line
  each time and still sends three requests, 2000 ms and 4000 ms apart: the rejection of a
  4xx response is retried like any other.
\<close>

theorem sendTelegramMessage_retries_4xx:
  "sendTelegramMessage (\<lambda>n req. (Inr \<lparr>status = 400, statusText = ''Bad Request'', body_text = Inr ''chat not found'', body_json = Inr ()\<rparr>, Suc n)) defaultRetryConfig ''T'' ''C'' ''hi'' None (0::nat)
  = (Inl (ErrorObject (TelegramApiError 400 ''Bad Request'' ''chat not found'')), 3, 
     [Logger_info (Attempting telegramLabel 1 3), Await_fn, Await_fetch,
      Logger_error (TelegramPermanentError (TelegramApiError 400 ''Bad Request'' ''chat not found'')),
      Logger_warning (RetryingAfterDelay telegramLabel 1 3 2000 (TelegramApiError 400 ''Bad Request'' ''chat not found'')),
      Await_setTimeout 2000,
      Logger_info (Attempting telegramLabel 2 3), Await_fn, Await_fetch,
      Logger_error (TelegramPermanentError (TelegramApiError 400 ''Bad Request'' ''chat not found'')),
      Logger_warning (RetryingAfterDelay telegramLabel 2 3 4000 (TelegramApiError 400 ''Bad Request'' ''chat not found'')),
      Await_setTimeout 4000,
      Logger_info (Attempting telegramLabel 3 3), Await_fn, Await_fetch,
      Logger_error (TelegramPermanentError (TelegramApiError 400 ''Bad Request'' ''chat not found'')),
      Logger_error (FinalFailure telegramLabel 3 (ErrorObject (TelegramApiError 400 ''Bad Request'' ''chat not found'')))])"
  by (simp add: sendTelegramMessage_def withRetry_def withRetry_loop.simps sendOnce_def ok_def defaultRetryConfig_def Let_def)

text \<open>
  Claim C4 at a restart callback that rejects with a string. The workflow fails on its
  first invocation and would succeed on the second; the restart callback rejects with
  \<^verbatim>\<open>'close failed'\<close>. The inner \<^verbatim>\<open>catch\<close> block hands the string to \<^verbatim>\<open>Logger.error\<close>,
  which throws a \<^verbatim>\<open>TypeError\<close>; that error is the outcome of \<open>withBrowserRestart\<close>,
  there is no delay and the workflow is not invoked again (the world counts one
  invocation and one restart).
\<close>

theorem withBrowserRestart_restart_failure_escapes:
  "withBrowserRestart
     (\<lambda>n. if n = 0 then (Inl (ErrorObject (Text ''login failed'')), 1, [])
           else (Inr ''updated'', n + 1, []))
     (\<lambda>n. (Inl (NonError ''close failed''), n + 10, []))
     noOptions defaultRetryConfig (0 :: nat)
   = (Inl (ErrorObject CannotReadReplaceOfUndefined), 11,
      [Logger_info (Attempting defaultProcessLabel 1 3), Await_fn,
       Logger_warning (RetryingAfterRestart defaultProcessLabel 1 3 (Text ''login failed'')),
       Await_browserRestartFn])"
  by (simp add: withBrowserRestart_def noOptions_def defaultRetryConfig_def
      withBrowserRestart_loop_logger_throws[of _ _ _ _ "ErrorObject (Text ''login failed'')" 1 "[]"
        _ "NonError ''close failed''" 11 "[]" "ErrorObject CannotReadReplaceOfUndefined"])

text \<open>
  When the logger can print the restart error (an \<^verbatim>\<open>Error\<close> instance or a falsy
  value), the failure is swallowed: the loop logs it, waits the base delay and awaits the
  workflow again as attempt \<open>attempt + 1\<close> in the world the failed restart left,
  continuing as the loop entered at \<open>attempt + 1\<close> with the workflow's error does.
\<close>

lemma restart_failure_swallowed_when_logged:
  assumes "attempt < maxR"
    and "fn s = (Inl error, s1, evs)"
    and "browserRestartFn s1 = (Inl restartError, s2, revs)"
    and "Logger_error_throws restartError = None"
  shows "\<exists>r s3 rest.
      withBrowserRestart_loop fn browserRestartFn label maxR baseD attempt lastError s =
        (r, s3,
         [Logger_info (Attempting label attempt maxR), Await_fn] @ evs @
         [Logger_warning (RetryingAfterRestart label attempt maxR (message_of (toError error))),
          Await_browserRestartFn] @ revs @
         [Logger_error (BrowserRestartFailed restartError), Await_setTimeout baseD,
          Logger_info (Attempting label (attempt + 1) maxR), Await_fn] @ snd (snd (fn s2)) @ rest)
    \<and> withBrowserRestart_loop fn browserRestartFn label maxR baseD (attempt + 1) (toError error) s2 =
        (r, s3,
         [Logger_info (Attempting label (attempt + 1) maxR), Await_fn] @ snd (snd (fn s2)) @ rest)"
proof -
  have le: "attempt + 1 \<le> maxR" using assms(1) by simp
  obtain r s3 tr where n: "withBrowserRestart_loop fn browserRestartFn label maxR baseD
      (attempt + 1) (toError error) s2 = (r, s3, tr)"
    by (cases "withBrowserRestart_loop fn browserRestartFn label maxR baseD
      (attempt + 1) (toError error) s2")
  from withBrowserRestart_loop_begins[OF le, of fn browserRestartFn label baseD "toError error" s2]
  obtain rest where tr: "tr =
      [Logger_info (Attempting label (attempt + 1) maxR), Await_fn] @ snd (snd (fn s2)) @ rest"
    by (auto simp: n)
  have "withBrowserRestart_loop fn browserRestartFn label maxR baseD attempt lastError s =
        (r, s3,
         [Logger_info (Attempting label attempt maxR), Await_fn] @ evs @
         [Logger_warning (RetryingAfterRestart label attempt maxR (message_of (toError error))),
          Await_browserRestartFn] @ revs @
         [Logger_error (BrowserRestartFailed restartError), Await_setTimeout baseD,
          Logger_info (Attempting label (attempt + 1) maxR), Await_fn] @ snd (snd (fn s2)) @ rest)"
    using withBrowserRestart_loop_retry[OF assms(1) assms(2) assms(3) _ n, of lastError] tr assms(4)
    by simp
  with n tr show ?thesis by blast
qed

section \<open>Properties of the measured operations\<close>

text \<open>
  Claim C1 as stated fails. Take the manager after two failed measurements, so that
  \<open>getAdaptiveTimeout element\<close> is the base 15000. One more failed operation, measured
  as category \<open>navigation\<close>, makes the count 3 with success rate 0, and
  \<open>getAdaptiveTimeout element\<close> becomes 22500.
\<close>

theorem measurement_crosses_categories:
  "getAdaptiveTimeout (recordAll [(100, False), (100, False)] initialMetrics) element = 15000
   \<and> getAdaptiveTimeout
        (metrics (fst (snd (withTimeoutMeasurement
           (\<lambda>w. (Inl (ErrorObject (Text ''net::ERR_CONNECTION_RESET'')), w, []))
           navigation None \<lparr>timerFirst = False, responseTime = 100\<rparr>
           \<lparr>page = (), metrics = recordAll [(100, False), (100, False)] initialMetrics\<rparr>))))
        element = 22500"
  by (simp add: withTimeoutMeasurement_def getAdaptiveTimeout_def recordAll_def
      recordMeasurement_def initialMetrics_def Let_def config_def
      Math_round_of_int[of 22500, simplified])

text \<open>
  Claim C1, as amended. The manager keeps one set of statistics, shared by all
  categories: a measurement made through \<open>withTimeoutMeasurement\<close> leaves the same world
  whichever category it is attributed to, namely the operation's world with
  \<open>recordMeasurement\<close> applied to the shared metrics. Such a recording leaves
  \<open>getAdaptiveTimeout c2\<close> unchanged for every category \<open>c2\<close> as long as fewer than 3
  measurements have been recorded once it is made (\<open>measurementCount < 2\<close> before it).
\<close>

theorem metrics_shared_by_categories:
  "fst (snd (withTimeoutMeasurement operationFn c1 timeoutMs race w)) =
     fst (snd (withTimeoutMeasurement operationFn c2 timeoutMs race w))
   \<and> metrics (fst (snd (withTimeoutMeasurement operationFn c1 timeoutMs race w))) =
       recordMeasurement (responseTime race)
         (\<not> timerFirst race \<and> \<not> isl (fst (operationFn w)))
         (metrics (fst (snd (operationFn w))))
   \<and> (measurementCount m < 2 \<longrightarrow>
        getAdaptiveTimeout (recordMeasurement t good m) c2 = getAdaptiveTimeout m c2)"
proof -
  obtain settled w1 evs where op: "operationFn w = (settled, w1, evs)"
    by (cases "operationFn w")
  have a: "fst (snd (withTimeoutMeasurement operationFn c timeoutMs race w)) =
        w1\<lparr>metrics := recordMeasurement (responseTime race)
              (\<not> timerFirst race \<and> \<not> isl settled) (metrics w1)\<rparr>" for c
    by (cases settled) (simp_all add: withTimeoutMeasurement_def op Let_def)
  have b: "measurementCount m < 2 \<Longrightarrow>
        getAdaptiveTimeout (recordMeasurement t good m) c2 = getAdaptiveTimeout m c2"
    by (simp add: getAdaptiveTimeout_def measurementCount_recordMeasurement)
  show ?thesis using a b by (simp add: op)
qed

theorem metrics_shared_by_categories_witness:
  "measurementCount initialMetrics < 2
   \<and> getAdaptiveTimeout (recordMeasurement 29000 True initialMetrics) popup
       = getAdaptiveTimeout initialMetrics popup
   \<and> fst (snd (withTimeoutMeasurement (\<lambda>w. (Inr (), w, [])) navigation None
          \<lparr>timerFirst = False, responseTime = 29000\<rparr> \<lparr>page = (), metrics = initialMetrics\<rparr>)) =
     fst (snd (withTimeoutMeasurement (\<lambda>w. (Inr (), w, [])) popup None
          \<lparr>timerFirst = False, responseTime = 29000\<rparr> \<lparr>page = (), metrics = initialMetrics\<rparr>))"
proof -
  have h: "measurementCount initialMetrics < 2" by (simp add: initialMetrics_def)
  from metrics_shared_by_categories[of "\<lambda>w. (Inr (), w, [])" navigation None
      "\<lparr>timerFirst = False, responseTime = 29000\<rparr>" "\<lparr>page = (), metrics = initialMetrics\<rparr>"
      popup initialMetrics 29000 True]
  show ?thesis using h by blast
qed

text \<open>
  The run of the loop when the first \<open>k\<close> of the remaining selectors fail one after the
  other, through the page states \<open>ps 0\<close>, \<open>ps 1\<close>, ..., and selector \<open>k\<close>, if there is
  one, succeeds; and such a \<open>k\<close> and such states exist for every driver and page.
\<close>

lemma trySelectors_run:
  assumes "k \<le> length remaining"
    and "\<forall>i<k. \<exists>e. waitFor (ps i) (remaining ! i) st (Math_floor (T / of_nat (length sels)))
                      = (Inl e, ps (Suc i))"
    and "k < length remaining \<Longrightarrow>
           \<exists>u. waitFor (ps k) (remaining ! k) st (Math_floor (T / of_nat (length sels)))
                  = (Inr u, ps (Suc k))"
  shows "trySelectors waitFor st T sels remaining (ps 0) =
       ((if k < length remaining then Some (remaining ! k) else None),
        ps (if k < length remaining then Suc k else k),
        concat (map (\<lambda>sel. [Await_waitForSelector sel st (Math_floor (T / of_nat (length sels))),
                            Logger_warning (SelectorFailed sel)]) (take k remaining)) @
        (if k < length remaining
         then [Await_waitForSelector (remaining ! k) st (Math_floor (T / of_nat (length sels))),
               Logger_info (SelectorSucceeded (remaining ! k))]
         else []))"
  using assms
proof (induction remaining arbitrary: k ps)
  case Nil
  then show ?case by simp
next
  case (Cons a remaining)
  show ?case
  proof (cases k)
    case 0
    with Cons.prems(3) obtain u where
      "waitFor (ps 0) a st (Math_floor (T / of_nat (length sels))) = (Inr u, ps (Suc 0))"
      by auto
    then show ?thesis using 0 by (simp add: Let_def)
  next
    case (Suc j)
    from Cons.prems(2) Suc obtain e where
      w: "waitFor (ps 0) a st (Math_floor (T / of_nat (length sels))) = (Inl e, ps (Suc 0))"
      by fastforce
    have j: "j \<le> length remaining" using Cons.prems(1) Suc by simp
    have fails: "\<forall>i<j. \<exists>e. waitFor ((ps \<circ> Suc) i) (remaining ! i) st
                     (Math_floor (T / of_nat (length sels))) = (Inl e, (ps \<circ> Suc) (Suc i))"
    proof (intro allI impI)
      fix i assume "i < j"
      then have "Suc i < k" using Suc by simp
      with Cons.prems(2) show "\<exists>e. waitFor ((ps \<circ> Suc) i) (remaining ! i) st
                     (Math_floor (T / of_nat (length sels))) = (Inl e, (ps \<circ> Suc) (Suc i))"
        by fastforce
    qed
    have succ: "j < length remaining \<Longrightarrow>
           \<exists>u. waitFor ((ps \<circ> Suc) j) (remaining ! j) st (Math_floor (T / of_nat (length sels)))
                  = (Inr u, (ps \<circ> Suc) (Suc j))"
      using Cons.prems(3) Suc by simp
    from Cons.IH[of j "ps \<circ> Suc", OF j fails succ]
    show ?thesis using Suc w by (simp add: Let_def)
  qed
qed

lemma first_success_exists:
  "\<exists>k ps. k \<le> length remaining \<and> ps 0 = p
     \<and> (\<forall>i<k. \<exists>e. waitFor (ps i) (remaining ! i) st t = (Inl e, ps (Suc i)))
     \<and> (k < length remaining \<longrightarrow> (\<exists>u. waitFor (ps k) (remaining ! k) st t = (Inr u, ps (Suc k))))"
proof (induction remaining arbitrary: p)
  case Nil
  show ?case by (intro exI[of _ 0] exI[of _ "\<lambda>_. p"]) simp
next
  case (Cons a remaining)
  obtain out p1 where w: "waitFor p a st t = (out, p1)" by (cases "waitFor p a st t")
  show ?case
  proof (cases out)
    case (Inr u)
    show ?thesis
      by (intro exI[of _ 0] exI[of _ "\<lambda>i. if i = 0 then p else p1"]) (simp add: w Inr)
  next
    case (Inl e)
    from Cons.IH[of p1] obtain k ps where k: "k \<le> length remaining" and p0: "ps 0 = p1"
      and f: "\<forall>i<k. \<exists>e. waitFor (ps i) (remaining ! i) st t = (Inl e, ps (Suc i))"
      and g: "k < length remaining \<longrightarrow> (\<exists>u. waitFor (ps k) (remaining ! k) st t = (Inr u, ps (Suc k)))"
      by blast
    let ?ps = "\<lambda>i. case i of 0 \<Rightarrow> p | Suc j \<Rightarrow> ps j"
    have "\<forall>i<Suc k. \<exists>e. waitFor (?ps i) ((a # remaining) ! i) st t = (Inl e, ?ps (Suc i))"
    proof (intro allI impI)
      fix i assume "i < Suc k"
      then show "\<exists>e. waitFor (?ps i) ((a # remaining) ! i) st t = (Inl e, ?ps (Suc i))"
        using f w Inl p0 by (cases i) auto
    qed
    then show ?thesis
      using k g by (intro exI[of _ "Suc k"] exI[of _ ?ps]) simp
  qed
qed

text \<open>
  Claim C9, as amended. Let the selector list be non-empty and let the resolver settle
  before the budget timer of \<open>withTimeoutMeasurement\<close> does. The budget is the
  \<^verbatim>\<open>timeout\<close> option or else the adaptive timeout for \<open>element\<close>, and every wait gets the
  slice \<open>floor (budget / number of candidates)\<close>. Let the waits on the first \<open>k\<close>
  candidates, made in list order from the current page, all fail, and let the wait on
  candidate \<open>k\<close> succeed if \<open>k\<close> is not the length of the list (such a \<open>k\<close> always
  exists, by \<open>first_success_exists\<close>). Then the call awaits exactly these waits, each
  with the slice, and none on a later candidate; it returns candidate \<open>k\<close>, the first
  whose wait succeeds, or, when all candidates failed, rejects with the error that lists
  all of them.
\<close>

theorem waitForAnySelector_first_success:
  fixes ps :: "nat \<Rightarrow> 'p"
  assumes "selectors \<noteq> []" and "\<not> timerFirst race"
    and "st = orDefault stateOption visible"
    and "slice = Math_floor (orElse timeoutOption (getAdaptiveTimeout (metrics w) element)
                              / of_nat (length selectors))"
    and "k \<le> length selectors" and "ps 0 = page w"
    and "\<forall>i<k. \<exists>e. waitFor (ps i) (selectors ! i) st slice = (Inl e, ps (Suc i))"
    and "k < length selectors \<Longrightarrow>
           \<exists>u. waitFor (ps k) (selectors ! k) st slice = (Inr u, ps (Suc k))"
  shows "waitForAnySelector waitFor selectors stateOption timeoutOption race w =
     ((if k < length selectors then Inr (selectors ! k)
       else Inl (ErrorObject (AllSelectorsFailed selectors))),
      w\<lparr>page := ps (if k < length selectors then Suc k else k),
        metrics := recordMeasurement (responseTime race) (k < length selectors) (metrics w)\<rparr>,
      concat (map (\<lambda>sel. [Await_waitForSelector sel st slice,
                          Logger_warning (SelectorFailed sel)]) (take k selectors)) @
      (if k < length selectors
       then [Await_waitForSelector (selectors ! k) st slice,
             Logger_info (SelectorSucceeded (selectors ! k))]
       else []))"
proof -
  define T where "T = orElse timeoutOption (getAdaptiveTimeout (metrics w) element)"
  have sl: "slice = Math_floor (T / of_nat (length selectors))"
    using assms(4) by (simp add: T_def)
  have run: "trySelectors waitFor st T selectors selectors (page w) =
       ((if k < length selectors then Some (selectors ! k) else None),
        ps (if k < length selectors then Suc k else k),
        concat (map (\<lambda>sel. [Await_waitForSelector sel st slice,
                            Logger_warning (SelectorFailed sel)]) (take k selectors)) @
        (if k < length selectors
         then [Await_waitForSelector (selectors ! k) st slice,
               Logger_info (SelectorSucceeded (selectors ! k))]
         else []))"
    using trySelectors_run[of k selectors waitFor ps st T selectors] assms(5-8)
    unfolding sl by auto
  show ?thesis
    using assms(2)
    by (simp add: waitForAnySelector_def withTimeoutMeasurement_def resolveSelectors_def
          run Let_def T_def[symmetric] assms(3)[symmetric])
qed

theorem waitForAnySelector_first_success_witness:
  "[''#a'', ''#b'', ''#c''] \<noteq> []
   \<and> \<not> timerFirst \<lparr>timerFirst = False, responseTime = 250\<rparr>
   \<and> (\<lambda>p sel st t. if sel = ''#c'' then (Inr (), Suc p)
                      else (Inl (ErrorObject (Text ''Timeout exceeded'')), Suc p))
         (0 :: nat) ''#a'' visible 100 = (Inl (ErrorObject (Text ''Timeout exceeded'')), 1)
   \<and> (\<lambda>p sel st t. if sel = ''#c'' then (Inr (), Suc p)
                      else (Inl (ErrorObject (Text ''Timeout exceeded'')), Suc p))
         (1 :: nat) ''#b'' visible 100 = (Inl (ErrorObject (Text ''Timeout exceeded'')), 2)
   \<and> (\<lambda>p sel st t. if sel = ''#c'' then (Inr (), Suc p)
                      else (Inl (ErrorObject (Text ''Timeout exceeded'')), Suc p))
         (2 :: nat) ''#c'' visible 100 = (Inr (), 3)
   \<and> waitForAnySelector
        (\<lambda>p sel st t. if sel = ''#c'' then (Inr (), Suc p)
                       else (Inl (ErrorObject (Text ''Timeout exceeded'')), Suc p))
        [''#a'', ''#b'', ''#c''] None (Some 300)
        \<lparr>timerFirst = False, responseTime = 250\<rparr>
        \<lparr>page = 0 :: nat, metrics = initialMetrics\<rparr> =
      (Inr ''#c'',
       \<lparr>page = 3, metrics = recordMeasurement 250 True initialMetrics\<rparr>,
       [Await_waitForSelector ''#a'' visible 100, Logger_warning (SelectorFailed ''#a''),
        Await_waitForSelector ''#b'' visible 100, Logger_warning (SelectorFailed ''#b''),
        Await_waitForSelector ''#c'' visible 100, Logger_info (SelectorSucceeded ''#c'')])"
proof -
  let ?waitFor = "\<lambda>(p :: nat) sel (st :: WaitState) (t :: rat).
      if sel = ''#c'' then (Inr (), Suc p)
      else (Inl (ErrorObject (Text ''Timeout exceeded'')), Suc p)"
  let ?w = "\<lparr>page = 0 :: nat, metrics = initialMetrics\<rparr>"
  let ?race = "\<lparr>timerFirst = False, responseTime = 250\<rparr>"
  have h1: "[''#a'', ''#b'', ''#c''] \<noteq> []" by simp
  have h2: "\<not> timerFirst ?race" by simp
  have h3: "visible = orDefault None visible" by simp
  have h4: "(100 :: rat) = Math_floor (orElse (Some 300) (getAdaptiveTimeout (metrics ?w) element)
                              / of_nat (length [''#a'', ''#b'', ''#c'']))"
    by (simp add: Math_floor_def)
  have h5: "(2 :: nat) \<le> length [''#a'', ''#b'', ''#c'']" by simp
  have h6: "(\<lambda>i :: nat. i) 0 = page ?w" by simp
  have h7: "\<forall>i<2. \<exists>e. ?waitFor ((\<lambda>i. i) i) ([''#a'', ''#b'', ''#c''] ! i) visible 100
                     = (Inl e, (\<lambda>i. i) (Suc i))"
  proof (intro allI impI)
    fix i :: nat assume "i < 2"
    then consider "i = 0" | "i = 1" by linarith
    then show "\<exists>e. ?waitFor ((\<lambda>i. i) i) ([''#a'', ''#b'', ''#c''] ! i) visible 100
                     = (Inl e, (\<lambda>i. i) (Suc i))"
      by cases simp_all
  qed
  have h8: "2 < length [''#a'', ''#b'', ''#c''] \<Longrightarrow>
       \<exists>u. ?waitFor ((\<lambda>i. i) 2) ([''#a'', ''#b'', ''#c''] ! 2) visible 100
              = (Inr u, (\<lambda>i. i) (Suc 2))"
    by simp
  from waitForAnySelector_first_success[where waitFor = ?waitFor and ps = "\<lambda>i. i" and k = 2
      and w = ?w and race = ?race and selectors = "[''#a'', ''#b'', ''#c'']"
      and stateOption = None and timeoutOption = "Some 300" and st = visible and slice = 100,
      OF h1 h2 h3 h4 h5 h6 h7 h8]
  show ?thesis by simp
qed

text \<open>
  Claim C9 as stated fails when the budget timer settles first: with three candidates,
  a budget of 300 and every wait rejecting, the call rejects with the timeout error of
  \<open>withTimeoutMeasurement\<close>, which lists no candidate.
\<close>

theorem waitForAnySelector_timer_first:
  "fst (waitForAnySelector (\<lambda>p sel st t. (Inl (ErrorObject (Text ''Timeout exceeded'')), p))
          [''#a'', ''#b'', ''#c''] None (Some 300) \<lparr>timerFirst = True, responseTime = 300\<rparr>
          \<lparr>page = (), metrics = initialMetrics\<rparr>)
     = Inl (ErrorObject (OperationTimeoutAfter 300))
   \<and> fst (waitForAnySelector (\<lambda>p sel st t. (Inl (ErrorObject (Text ''Timeout exceeded'')), p))
          [''#a'', ''#b'', ''#c''] None (Some 300) \<lparr>timerFirst = True, responseTime = 300\<rparr>
          \<lparr>page = (), metrics = initialMetrics\<rparr>)
     \<noteq> Inl (ErrorObject (AllSelectorsFailed [''#a'', ''#b'', ''#c'']))"
  by (simp add: waitForAnySelector_def withTimeoutMeasurement_def resolveSelectors_def Let_def)

end
